theory Spec2Isabelle
  imports Main
begin

section \<open>The proxy routes of the Voicera frontend\<close>

text \<open>
  Three Next.js route handlers are embedded here:
  \<^item> \<^verbatim>\<open>POST\<close> of \<^verbatim>\<open>app/api/v1/members/delete-member/route.ts\<close>,
  \<^item> \<^verbatim>\<open>GET\<close> of the \<^verbatim>\<open>users/me\<close> route,
  \<^item> \<^verbatim>\<open>GET\<close> of \<^verbatim>\<open>app/api/v1/users/[email]/route.ts\<close>.

  Each handler is an async function whose body is one \<^verbatim>\<open>try\<close> block. The model makes
  its effects explicit: a handler returns the response it sends together with the trace of
  what it did to the outside world (outbound \<^verbatim>\<open>fetch\<close> calls, \<^verbatim>\<open>console.error\<close> entries),
  in the order in which they happen. An exception is a value of type \<open>error\<close>; the
  \<^verbatim>\<open>try\<close> block is a function into \<open>error + NextResponse\<close> and the \<^verbatim>\<open>catch\<close> block is the
  wrapper that turns \<open>Inl\<close> into the generic reply. The handler's own result is again of
  type \<open>error + NextResponse\<close>: \<open>Inl\<close> there would be an exception that leaves the
  handler uncaught.
\<close>

subsection \<open>Data\<close>

text \<open>
  Parsed JSON. Bodies are compared as JSON values: the text that \<^verbatim>\<open>JSON.stringify\<close> and
  \<^verbatim>\<open>NextResponse.json\<close> produce from a value is represented by the value itself. Numbers
  are kept as integers; no handler inspects a number.
\<close>

datatype json =
    JNull
  | JBool bool
  | JNum int
  | JStr string
  | JArr "json list"
  | JObj "(string \<times> json) list"

text \<open>What a JavaScript call can throw in these handlers, with its message.\<close>

datatype error = TypeError string | SyntaxError string | RangeError string

text \<open>
  The inbound request, as far as the handlers use it: \<open>headers_get\<close> is the method
  \<^verbatim>\<open>request.headers.get\<close> (\<open>None\<close> is \<^verbatim>\<open>null\<close>), \<open>request_json\<close> is the outcome of
  \<^verbatim>\<open>await request.json()\<close>, which throws when the body is missing or is not JSON.
\<close>

record NextRequest =
  headers_get :: "string \<Rightarrow> string option"
  request_json :: "error + json"

text \<open>
  The second argument of \<^verbatim>\<open>fetch\<close>: \<open>http_method\<close> is its \<^verbatim>\<open>method\<close> key, \<open>headers\<close>
  is the object literal, in its order, and \<open>body\<close> is the value that \<^verbatim>\<open>JSON.stringify\<close>
  serialises (\<open>None\<close> when no body is sent).
\<close>

record RequestInit =
  http_method :: string
  headers :: "(string \<times> string) list"
  body :: "json option"

text \<open>
  The backend's reply as \<^verbatim>\<open>fetch\<close> delivers it: \<open>response_json\<close> is the outcome of
  \<^verbatim>\<open>await response.json()\<close>, which throws when the body is not JSON.
\<close>

record Response =
  status :: nat
  response_json :: "error + json"

definition ok :: "Response \<Rightarrow> bool" where
  "ok response = (200 \<le> status response \<and> status response \<le> 299)"

text \<open>The reply sent to the caller.\<close>

record NextResponse =
  next_status :: nat
  next_body :: json

text \<open>
  \<^verbatim>\<open>NextResponse.json(data, { status })\<close> builds its reply through the \<^verbatim>\<open>Response\<close>
  constructor of the Fetch standard. Without \<^verbatim>\<open>init\<close> the status is 200. The constructor
  refuses a status outside 200..599 with a \<^verbatim>\<open>RangeError\<close>, and refuses a body together
  with a status that allows none (101, 103, 204, 205, 304) with a \<^verbatim>\<open>TypeError\<close>; every
  call of the handlers passes a body.
\<close>

definition nullBodyStatus :: "nat \<Rightarrow> bool" where
  "nullBodyStatus s = (s \<in> {101, 103, 204, 205, 304})"

definition NextResponse_json :: "json \<Rightarrow> nat option \<Rightarrow> error + NextResponse" where
  "NextResponse_json data init =
     (let s = (case init of None \<Rightarrow> 200 | Some s \<Rightarrow> s)
      in if s < 200 \<or> 599 < s then Inl (RangeError ''status must be in the range 200 to 599'')
         else if nullBodyStatus s then Inl (TypeError ''invalid response status code'')
         else Inr \<lparr>next_status = s, next_body = data\<rparr>)"

text \<open>
  The world outside a handler: the configured base URL (\<^verbatim>\<open>SERVER_API_URL\<close> of
  \<^verbatim>\<open>@/lib/api-config\<close>, which is not part of the sources at hand and is therefore a
  parameter) and the behaviour of \<^verbatim>\<open>fetch\<close>, which either throws or delivers a reply.
\<close>

record world =
  SERVER_API_URL :: string
  fetch :: "string \<Rightarrow> RequestInit \<Rightarrow> error + Response"

definition API_BASE_URL :: "world \<Rightarrow> string" where
  "API_BASE_URL w = SERVER_API_URL w"

datatype event =
    Fetch string RequestInit
  | ConsoleError string error

fun outbound_calls :: "event list \<Rightarrow> (string \<times> RequestInit) list" where
  "outbound_calls [] = []"
| "outbound_calls (Fetch url init # evs) = (url, init) # outbound_calls evs"
| "outbound_calls (ConsoleError label e # evs) = outbound_calls evs"

subsection \<open>\<^verbatim>\<open>encodeURIComponent\<close>\<close>

text \<open>
  The ECMAScript builtin on the UTF-8 bytes of a well-formed string (a \<open>string\<close> here is
  a list of bytes): letters, digits and \<^verbatim>\<open>- _ . ! ~ * ' ( )\<close> stay, every other byte
  becomes \<^verbatim>\<open>%XX\<close> in upper-case hexadecimal.
\<close>

definition uriUnreserved :: "char \<Rightarrow> bool" where
  "uriUnreserved c =
     (c \<in> set ''ABCDEFGHIJKLMNOPQRSTUVWXYZabcdefghijklmnopqrstuvwxyz0123456789-_.!~*()''
      \<or> c = CHR 0x27)"

definition hexDigit :: "nat \<Rightarrow> char" where
  "hexDigit n = ''0123456789ABCDEF'' ! (n mod 16)"

definition percentEncode :: "char \<Rightarrow> string" where
  "percentEncode c =
     [CHR ''%'', hexDigit ((of_char c :: nat) div 16), hexDigit ((of_char c :: nat) mod 16)]"

definition encodeURIComponent :: "string \<Rightarrow> string" where
  "encodeURIComponent s = concat (map (\<lambda>c. if uriUnreserved c then [c] else percentEncode c) s)"

subsection \<open>The handlers\<close>

text \<open>
  Each handler is given as its \<^verbatim>\<open>try\<close> block, a function into \<open>error + NextResponse\<close>
  paired with the trace so far, and the handler proper, which adds the \<^verbatim>\<open>catch\<close> block:
  it logs the error under the route's label and replies with the generic error. A
  \<^verbatim>\<open>return NextResponse.json(...)\<close> inside \<^verbatim>\<open>try\<close> whose call throws is caught like any
  other exception of the block.
  An outbound call is recorded before its outcome is known, so a \<^verbatim>\<open>fetch\<close> that throws
  still counts as a call.

  \<^verbatim>\<open>if (!authHeader)\<close>: \<^verbatim>\<open>null\<close> and the empty string are the falsy values of
  \<^verbatim>\<open>string | null\<close>.
\<close>

definition POST_delete_member_try ::
  "world \<Rightarrow> NextRequest \<Rightarrow> (error + NextResponse) \<times> event list" where
  "POST_delete_member_try w request =
     (case headers_get request ''Authorization'' of
        None \<Rightarrow>
          (NextResponse_json
             (JObj [(''error'', JStr ''Authorization header is required'')]) (Some 401),
           [])
      | Some authHeader \<Rightarrow>
          if authHeader = []
          then (NextResponse_json
                  (JObj [(''error'', JStr ''Authorization header is required'')]) (Some 401),
                [])
          else
            (case request_json request of
               Inl e \<Rightarrow> (Inl e, [])
             | Inr body' \<Rightarrow>
                 let url = API_BASE_URL w @ ''/api/v1/members/delete-member'';
                     init = \<lparr>http_method = ''POST'',
                             headers = [(''Content-Type'', ''application/json''),
                                        (''Accept'', ''application/json''),
                                        (''Authorization'', authHeader)],
                             body = Some body'\<rparr>
                 in (case fetch w url init of
                       Inl e \<Rightarrow> (Inl e, [Fetch url init])
                     | Inr response \<Rightarrow>
                         (case response_json response of
                            Inl e \<Rightarrow> (Inl e, [Fetch url init])
                          | Inr data \<Rightarrow>
                              if \<not> ok response
                              then (NextResponse_json data (Some (status response)),
                                    [Fetch url init])
                              else (NextResponse_json data None, [Fetch url init])))))"

definition POST_delete_member ::
  "world \<Rightarrow> NextRequest \<Rightarrow> (error + NextResponse) \<times> event list" where
  "POST_delete_member w request =
     (case POST_delete_member_try w request of
        (Inr res, evs) \<Rightarrow> (Inr res, evs)
      | (Inl e, evs) \<Rightarrow>
          (NextResponse_json (JObj [(''error'', JStr ''Internal server error'')]) (Some 500),
           evs @ [ConsoleError ''Error deleting member:'' e]))"

definition GET_users_me_try ::
  "world \<Rightarrow> NextRequest \<Rightarrow> (error + NextResponse) \<times> event list" where
  "GET_users_me_try w request =
     (case headers_get request ''Authorization'' of
        None \<Rightarrow>
          (NextResponse_json
             (JObj [(''error'', JStr ''Authorization header is required'')]) (Some 401),
           [])
      | Some authHeader \<Rightarrow>
          if authHeader = []
          then (NextResponse_json
                  (JObj [(''error'', JStr ''Authorization header is required'')]) (Some 401),
                [])
          else
            let url = API_BASE_URL w @ ''/api/v1/users/me'';
                init = \<lparr>http_method = ''GET'',
                        headers = [(''Accept'', ''application/json''),
                                   (''Authorization'', authHeader)],
                        body = None\<rparr>
            in (case fetch w url init of
                  Inl e \<Rightarrow> (Inl e, [Fetch url init])
                | Inr response \<Rightarrow>
                    (case response_json response of
                       Inl e \<Rightarrow> (Inl e, [Fetch url init])
                     | Inr data \<Rightarrow>
                         if \<not> ok response
                         then (NextResponse_json data (Some (status response)),
                               [Fetch url init])
                         else (NextResponse_json data None, [Fetch url init]))))"

definition GET_users_me ::
  "world \<Rightarrow> NextRequest \<Rightarrow> (error + NextResponse) \<times> event list" where
  "GET_users_me w request =
     (case GET_users_me_try w request of
        (Inr res, evs) \<Rightarrow> (Inr res, evs)
      | (Inl e, evs) \<Rightarrow>
          (NextResponse_json (JObj [(''error'', JStr ''Internal server error'')]) (Some 500),
           evs @ [ConsoleError ''Error fetching current user:'' e]))"

text \<open>
  The \<^verbatim>\<open>[email]\<close> route never looks at \<^verbatim>\<open>request\<close>; \<open>email\<close> is the awaited path
  parameter.
\<close>

definition GET_users_email_try ::
  "world \<Rightarrow> NextRequest \<Rightarrow> string \<Rightarrow> (error + NextResponse) \<times> event list" where
  "GET_users_email_try w request email =
     (let url = API_BASE_URL w @ ''/api/v1/users/'' @ encodeURIComponent email;
          init = \<lparr>http_method = ''GET'',
                  headers = [(''Accept'', ''application/json'')],
                  body = None\<rparr>
      in (case fetch w url init of
            Inl e \<Rightarrow> (Inl e, [Fetch url init])
          | Inr response \<Rightarrow>
              (case response_json response of
                 Inl e \<Rightarrow> (Inl e, [Fetch url init])
               | Inr data \<Rightarrow>
                   if \<not> ok response
                   then (NextResponse_json data (Some (status response)),
                         [Fetch url init])
                   else (NextResponse_json data None, [Fetch url init]))))"

definition GET_users_email ::
  "world \<Rightarrow> NextRequest \<Rightarrow> string \<Rightarrow> (error + NextResponse) \<times> event list" where
  "GET_users_email w request email =
     (case GET_users_email_try w request email of
        (Inr res, evs) \<Rightarrow> (Inr res, evs)
      | (Inl e, evs) \<Rightarrow>
          (NextResponse_json (JObj [(''error'', JStr ''Internal server error'')]) (Some 500),
           evs @ [ConsoleError ''Error checking user:'' e]))"

text \<open>
  The routes, as the directory layout under \<^verbatim>\<open>app/api/v1\<close> registers them, and the
  dispatch of an inbound request to its handler.
\<close>

datatype route = Members_delete_member | Users_me | Users_email string

fun handle :: "world \<Rightarrow> route \<Rightarrow> NextRequest \<Rightarrow> (error + NextResponse) \<times> event list" where
  "handle w Members_delete_member request = POST_delete_member w request"
| "handle w Users_me request = GET_users_me w request"
| "handle w (Users_email email) request = GET_users_email w request email"

subsection \<open>Concrete requests and backends\<close>

definition no_headers :: "string \<Rightarrow> string option" where
  "no_headers name = None"

definition bearer_headers :: "string \<Rightarrow> string option" where
  "bearer_headers name = (if name = ''Authorization'' then Some ''Bearer abc'' else None)"

definition anonymous_request :: NextRequest where
  "anonymous_request =
     \<lparr>headers_get = no_headers,
      request_json = Inl (SyntaxError ''Unexpected end of JSON input'')\<rparr>"

definition member_request :: NextRequest where
  "member_request =
     \<lparr>headers_get = bearer_headers,
      request_json = Inr (JObj [(''memberId'', JStr ''123'')])\<rparr>"

definition malformed_request :: NextRequest where
  "malformed_request =
     \<lparr>headers_get = bearer_headers,
      request_json = Inl (SyntaxError ''Unexpected token'')\<rparr>"

definition fetch_not_found :: "string \<Rightarrow> RequestInit \<Rightarrow> error + Response" where
  "fetch_not_found url init =
     Inr \<lparr>status = 404, response_json = Inr (JObj [(''error'', JStr ''not found'')])\<rparr>"

definition fetch_created :: "string \<Rightarrow> RequestInit \<Rightarrow> error + Response" where
  "fetch_created url init =
     Inr \<lparr>status = 201, response_json = Inr (JObj [(''success'', JBool True)])\<rparr>"

definition fetch_html_502 :: "string \<Rightarrow> RequestInit \<Rightarrow> error + Response" where
  "fetch_html_502 url init =
     Inr \<lparr>status = 502, response_json = Inl (SyntaxError ''Unexpected token <'')\<rparr>"

definition fetch_refused :: "string \<Rightarrow> RequestInit \<Rightarrow> error + Response" where
  "fetch_refused url init = Inl (TypeError ''fetch failed'')"

definition fetch_status_600 :: "string \<Rightarrow> RequestInit \<Rightarrow> error + Response" where
  "fetch_status_600 url init =
     Inr \<lparr>status = 600, response_json = Inr (JObj [(''error'', JStr ''not found'')])\<rparr>"

definition fetch_unauthorized :: "string \<Rightarrow> RequestInit \<Rightarrow> error + Response" where
  "fetch_unauthorized url init =
     Inr \<lparr>status = 401,
          response_json = Inr (JObj [(''error'', JStr ''Authorization header is required'')])\<rparr>"

definition backend :: "(string \<Rightarrow> RequestInit \<Rightarrow> error + Response) \<Rightarrow> world" where
  "backend f = \<lparr>SERVER_API_URL = ''http://backend:8000'', fetch = f\<rparr>"

definition delete_member_init :: RequestInit where
  "delete_member_init =
     \<lparr>http_method = ''POST'',
      headers = [(''Content-Type'', ''application/json''),
                 (''Accept'', ''application/json''),
                 (''Authorization'', ''Bearer abc'')],
      body = Some (JObj [(''memberId'', JStr ''123'')])\<rparr>"

definition users_me_init :: RequestInit where
  "users_me_init =
     \<lparr>http_method = ''GET'',
      headers = [(''Accept'', ''application/json''), (''Authorization'', ''Bearer abc'')],
      body = None\<rparr>"

definition users_email_init :: RequestInit where
  "users_email_init =
     \<lparr>http_method = ''GET'', headers = [(''Accept'', ''application/json'')], body = None\<rparr>"

section \<open>Properties\<close>

lemmas handler_defs =
  POST_delete_member_def POST_delete_member_try_def
  GET_users_me_def GET_users_me_try_def
  GET_users_email_def GET_users_email_try_def
  NextResponse_json_def nullBodyStatus_def Let_def

lemmas example_defs =
  no_headers_def bearer_headers_def anonymous_request_def member_request_def
  malformed_request_def fetch_not_found_def fetch_created_def fetch_html_502_def
  fetch_refused_def fetch_status_600_def fetch_unauthorized_def backend_def API_BASE_URL_def ok_def
  delete_member_init_def users_me_init_def users_email_init_def

lemmas encode_defs =
  encodeURIComponent_def uriUnreserved_def percentEncode_def hexDigit_def

lemma encode_example:
  "encodeURIComponent ''unknown@example.com'' = ''unknown%40example.com''"
  by (simp add: encode_defs)

text \<open>
  C1. On the two routes that require authentication, a request without an
  \<^verbatim>\<open>Authorization\<close> header is answered with status 401 and the body
  \<^verbatim>\<open>{ "error": "Authorization header is required" }\<close>, and the trace is empty: no
  outbound call was made (and nothing was logged).
\<close>

theorem missing_authorization_is_401:
  assumes "headers_get request ''Authorization'' = None"
  shows "POST_delete_member w request =
           (Inr \<lparr>next_status = 401,
                 next_body = JObj [(''error'', JStr ''Authorization header is required'')]\<rparr>, [])
       \<and> GET_users_me w request =
           (Inr \<lparr>next_status = 401,
                 next_body = JObj [(''error'', JStr ''Authorization header is required'')]\<rparr>, [])"
  using assms by (simp add: handler_defs)

theorem missing_authorization_is_401_witness:
  "headers_get anonymous_request ''Authorization'' = None
   \<and> POST_delete_member (backend fetch_created) anonymous_request =
       (Inr \<lparr>next_status = 401,
             next_body = JObj [(''error'', JStr ''Authorization header is required'')]\<rparr>, [])
   \<and> GET_users_me (backend fetch_created) anonymous_request =
       (Inr \<lparr>next_status = 401,
             next_body = JObj [(''error'', JStr ''Authorization header is required'')]\<rparr>, [])"
  using missing_authorization_is_401 [of anonymous_request "backend fetch_created"]
  by (simp add: anonymous_request_def no_headers_def)

text \<open>
  No exception leaves a handler: the \<^verbatim>\<open>catch\<close> block builds its reply with the fixed
  status 500, which \<^verbatim>\<open>NextResponse.json\<close> accepts.
\<close>

lemma handle_always_replies: "\<exists>res. fst (handle w route request) = Inr res"
  by (cases route) (auto simp: handler_defs split: option.splits sum.splits if_splits)

text \<open>
  C2, as the claim states it, fails for a backend status that \<^verbatim>\<open>NextResponse.json\<close>
  refuses: the backend answers \<^verbatim>\<open>GET /api/v1/users/unknown@example.com\<close> with status 600
  and the readable body \<^verbatim>\<open>{ "error": "not found" }\<close>; the relay throws inside \<^verbatim>\<open>try\<close>
  and the caller receives the generic 500.
\<close>

theorem backend_status_600_is_not_relayed_counterexample:
  "fetch (backend fetch_status_600)
     ''http://backend:8000/api/v1/users/unknown%40example.com'' users_email_init
     = Inr \<lparr>status = 600, response_json = Inr (JObj [(''error'', JStr ''not found'')])\<rparr>
   \<and> \<not> ok \<lparr>status = 600, response_json = Inr (JObj [(''error'', JStr ''not found'')])\<rparr>
   \<and> outbound_calls
       (snd (handle (backend fetch_status_600) (Users_email ''unknown@example.com'') anonymous_request))
     = [(''http://backend:8000/api/v1/users/unknown%40example.com'', users_email_init)]
   \<and> fst (handle (backend fetch_status_600) (Users_email ''unknown@example.com'') anonymous_request)
     = Inr \<lparr>next_status = 500, next_body = JObj [(''error'', JStr ''Internal server error'')]\<rparr>
   \<and> fst (handle (backend fetch_status_600) (Users_email ''unknown@example.com'') anonymous_request)
     \<noteq> Inr \<lparr>next_status = 600, next_body = JObj [(''error'', JStr ''not found'')]\<rparr>"
  by (simp add: handler_defs example_defs encode_example)

text \<open>
  C2, amended. Pass-through of backend failures, stated from the request and the
  backend's behaviour. On each route, when the request gets as far as the \<^verbatim>\<open>fetch\<close>, the
  backend answers the call the route makes with a status outside 200..299 that a reply
  with a body may carry (300..599 except 304), and the body of the answer parses as JSON,
  the reply to the caller has the backend's status and, as its body, the JSON value parsed
  from the backend's body.
\<close>

theorem backend_failure_passes_through:
  assumes "\<not> ok response"
      and "200 \<le> status response" and "status response \<le> 599" and "status response \<noteq> 304"
      and "response_json response = Inr data"
  shows "(headers_get request ''Authorization'' = Some authHeader \<and> authHeader \<noteq> []
            \<and> request_json request = Inr body'
            \<and> fetch w (SERVER_API_URL w @ ''/api/v1/members/delete-member'')
                 \<lparr>http_method = ''POST'',
                  headers = [(''Content-Type'', ''application/json''),
                             (''Accept'', ''application/json''),
                             (''Authorization'', authHeader)],
                  body = Some body'\<rparr> = Inr response
          \<longrightarrow> fst (POST_delete_member w request) =
                Inr \<lparr>next_status = status response, next_body = data\<rparr>)
       \<and> (headers_get request ''Authorization'' = Some authHeader \<and> authHeader \<noteq> []
            \<and> fetch w (SERVER_API_URL w @ ''/api/v1/users/me'')
                 \<lparr>http_method = ''GET'',
                  headers = [(''Accept'', ''application/json''),
                             (''Authorization'', authHeader)],
                  body = None\<rparr> = Inr response
          \<longrightarrow> fst (GET_users_me w request) =
                Inr \<lparr>next_status = status response, next_body = data\<rparr>)
       \<and> (fetch w (SERVER_API_URL w @ ''/api/v1/users/'' @ encodeURIComponent email)
                 \<lparr>http_method = ''GET'',
                  headers = [(''Accept'', ''application/json'')],
                  body = None\<rparr> = Inr response
          \<longrightarrow> fst (GET_users_email w request email) =
                Inr \<lparr>next_status = status response, next_body = data\<rparr>)"
proof -
  from assms have relay:
    "NextResponse_json data (Some (status response)) =
       Inr \<lparr>next_status = status response, next_body = data\<rparr>"
    by (auto simp: NextResponse_json_def nullBodyStatus_def ok_def)
  show ?thesis
    using assms(1,5) relay
    by (simp add: POST_delete_member_def POST_delete_member_try_def
          GET_users_me_def GET_users_me_try_def
          GET_users_email_def GET_users_email_try_def API_BASE_URL_def Let_def)
qed

theorem backend_failure_passes_through_witness:
  "\<not> ok \<lparr>status = 404, response_json = Inr (JObj [(''error'', JStr ''not found'')])\<rparr>
   \<and> headers_get member_request ''Authorization'' = Some ''Bearer abc''
   \<and> request_json member_request = Inr (JObj [(''memberId'', JStr ''123'')])
   \<and> fetch (backend fetch_not_found)
         ''http://backend:8000/api/v1/members/delete-member'' delete_member_init
     = Inr \<lparr>status = 404, response_json = Inr (JObj [(''error'', JStr ''not found'')])\<rparr>
   \<and> fst (POST_delete_member (backend fetch_not_found) member_request)
     = Inr \<lparr>next_status = 404, next_body = JObj [(''error'', JStr ''not found'')]\<rparr>
   \<and> fetch (backend fetch_not_found) ''http://backend:8000/api/v1/users/me'' users_me_init
     = Inr \<lparr>status = 404, response_json = Inr (JObj [(''error'', JStr ''not found'')])\<rparr>
   \<and> fst (GET_users_me (backend fetch_not_found) member_request)
     = Inr \<lparr>next_status = 404, next_body = JObj [(''error'', JStr ''not found'')]\<rparr>
   \<and> fetch (backend fetch_not_found)
         ''http://backend:8000/api/v1/users/unknown%40example.com'' users_email_init
     = Inr \<lparr>status = 404, response_json = Inr (JObj [(''error'', JStr ''not found'')])\<rparr>
   \<and> fst (GET_users_email (backend fetch_not_found) anonymous_request ''unknown@example.com'')
     = Inr \<lparr>next_status = 404, next_body = JObj [(''error'', JStr ''not found'')]\<rparr>"
  using
    backend_failure_passes_through
      [where response = "\<lparr>status = 404,
                            response_json = Inr (JObj [(''error'', JStr ''not found'')])\<rparr>"
         and data = "JObj [(''error'', JStr ''not found'')]"
         and w = "backend fetch_not_found" and request = member_request
         and authHeader = "''Bearer abc''" and body' = "JObj [(''memberId'', JStr ''123'')]"
         and email = "''unknown@example.com''"]
    backend_failure_passes_through
      [where response = "\<lparr>status = 404,
                            response_json = Inr (JObj [(''error'', JStr ''not found'')])\<rparr>"
         and data = "JObj [(''error'', JStr ''not found'')]"
         and w = "backend fetch_not_found" and request = anonymous_request
         and email = "''unknown@example.com''"]
  by (simp add: example_defs encode_example)

text \<open>
  C3, as the claim states it, fails on the \<^verbatim>\<open>[email]\<close> route: a caller who sends
  \<^verbatim>\<open>Authorization: Bearer abc\<close> to \<^verbatim>\<open>GET /api/v1/users/unknown@example.com\<close> causes an
  outbound request whose only header is \<^verbatim>\<open>Accept\<close>.
\<close>

theorem users_email_drops_authorization_counterexample:
  "headers_get member_request ''Authorization'' = Some ''Bearer abc''
   \<and> outbound_calls
       (snd (handle (backend fetch_created) (Users_email ''unknown@example.com'') member_request)) =
       [(''http://backend:8000/api/v1/users/unknown%40example.com'',
         \<lparr>http_method = ''GET'', headers = [(''Accept'', ''application/json'')], body = None\<rparr>)]
   \<and> map_of [(''Accept'', ''application/json'')] ''Authorization'' \<noteq> Some ''Bearer abc''"
  by (simp add: handler_defs example_defs encode_example)

text \<open>
  C3, amended. On the two routes that require authentication, every outbound request
  issued for an inbound request with an \<^verbatim>\<open>Authorization\<close> header carries that header
  with the same value; and a request that gets as far as the \<^verbatim>\<open>fetch\<close> issues exactly the
  one call whose headers end in that \<^verbatim>\<open>Authorization\<close> entry. The \<^verbatim>\<open>[email]\<close> route,
  whether or not the caller supplied an \<^verbatim>\<open>Authorization\<close> header, issues one call whose
  only header is \<^verbatim>\<open>Accept\<close>.
\<close>

theorem authorization_forwarded_by_auth_routes:
  "(headers_get request ''Authorization'' = Some authHeader \<longrightarrow>
      (\<forall>(url, init) \<in> set (outbound_calls (snd (POST_delete_member w request))).
          map_of (headers init) ''Authorization'' = Some authHeader)
      \<and> (\<forall>(url, init) \<in> set (outbound_calls (snd (GET_users_me w request))).
          map_of (headers init) ''Authorization'' = Some authHeader))
   \<and> (headers_get request ''Authorization'' = Some authHeader \<and> authHeader \<noteq> []
        \<and> request_json request = Inr body' \<longrightarrow>
      outbound_calls (snd (POST_delete_member w request)) =
        [(SERVER_API_URL w @ ''/api/v1/members/delete-member'',
          \<lparr>http_method = ''POST'',
           headers = [(''Content-Type'', ''application/json''),
                      (''Accept'', ''application/json''),
                      (''Authorization'', authHeader)],
           body = Some body'\<rparr>)])
   \<and> (headers_get request ''Authorization'' = Some authHeader \<and> authHeader \<noteq> [] \<longrightarrow>
      outbound_calls (snd (GET_users_me w request)) =
        [(SERVER_API_URL w @ ''/api/v1/users/me'',
          \<lparr>http_method = ''GET'',
           headers = [(''Accept'', ''application/json''), (''Authorization'', authHeader)],
           body = None\<rparr>)])
   \<and> outbound_calls (snd (GET_users_email w request email)) =
        [(SERVER_API_URL w @ ''/api/v1/users/'' @ encodeURIComponent email,
          \<lparr>http_method = ''GET'', headers = [(''Accept'', ''application/json'')], body = None\<rparr>)]"
proof (intro conjI impI)
  assume "headers_get request ''Authorization'' = Some authHeader"
  then show "\<forall>(url, init) \<in> set (outbound_calls (snd (POST_delete_member w request))).
          map_of (headers init) ''Authorization'' = Some authHeader"
    by (auto simp: handler_defs split: sum.splits if_splits)
next
  assume "headers_get request ''Authorization'' = Some authHeader"
  then show "\<forall>(url, init) \<in> set (outbound_calls (snd (GET_users_me w request))).
          map_of (headers init) ''Authorization'' = Some authHeader"
    by (auto simp: handler_defs split: sum.splits if_splits)
next
  assume "headers_get request ''Authorization'' = Some authHeader \<and> authHeader \<noteq> []
            \<and> request_json request = Inr body'"
  then show "outbound_calls (snd (POST_delete_member w request)) =
        [(SERVER_API_URL w @ ''/api/v1/members/delete-member'',
          \<lparr>http_method = ''POST'',
           headers = [(''Content-Type'', ''application/json''),
                      (''Accept'', ''application/json''),
                      (''Authorization'', authHeader)],
           body = Some body'\<rparr>)]"
    by (auto simp: handler_defs API_BASE_URL_def split: sum.splits if_splits)
next
  assume "headers_get request ''Authorization'' = Some authHeader \<and> authHeader \<noteq> []"
  then show "outbound_calls (snd (GET_users_me w request)) =
        [(SERVER_API_URL w @ ''/api/v1/users/me'',
          \<lparr>http_method = ''GET'',
           headers = [(''Accept'', ''application/json''), (''Authorization'', authHeader)],
           body = None\<rparr>)]"
    by (auto simp: handler_defs API_BASE_URL_def split: sum.splits if_splits)
next
  show "outbound_calls (snd (GET_users_email w request email)) =
        [(SERVER_API_URL w @ ''/api/v1/users/'' @ encodeURIComponent email,
          \<lparr>http_method = ''GET'', headers = [(''Accept'', ''application/json'')], body = None\<rparr>)]"
    by (auto simp: handler_defs API_BASE_URL_def split: sum.splits if_splits)
qed

theorem authorization_forwarded_by_auth_routes_witness:
  "headers_get member_request ''Authorization'' = Some ''Bearer abc''
   \<and> request_json member_request = Inr (JObj [(''memberId'', JStr ''123'')])
   \<and> outbound_calls (snd (POST_delete_member (backend fetch_created) member_request)) =
       [(''http://backend:8000/api/v1/members/delete-member'', delete_member_init)]
   \<and> map_of (headers delete_member_init) ''Authorization'' = Some ''Bearer abc''
   \<and> outbound_calls (snd (GET_users_me (backend fetch_created) member_request)) =
       [(''http://backend:8000/api/v1/users/me'', users_me_init)]
   \<and> map_of (headers users_me_init) ''Authorization'' = Some ''Bearer abc''
   \<and> outbound_calls
       (snd (GET_users_email (backend fetch_created) member_request ''unknown@example.com'')) =
       [(''http://backend:8000/api/v1/users/unknown%40example.com'', users_email_init)]
   \<and> headers_get anonymous_request ''Authorization'' = None
   \<and> outbound_calls
       (snd (GET_users_email (backend fetch_created) anonymous_request ''unknown@example.com'')) =
       [(''http://backend:8000/api/v1/users/unknown%40example.com'', users_email_init)]
   \<and> headers users_email_init = [(''Accept'', ''application/json'')]"
  using
    authorization_forwarded_by_auth_routes
      [where request = member_request and authHeader = "''Bearer abc''"
         and body' = "JObj [(''memberId'', JStr ''123'')]"
         and w = "backend fetch_created" and email = "''unknown@example.com''"]
    authorization_forwarded_by_auth_routes
      [where request = anonymous_request
         and w = "backend fetch_created" and email = "''unknown@example.com''"]
  by (simp add: example_defs encode_example)

text \<open>
  C4. Every exception is caught and answered with status 500 and the body
  \<^verbatim>\<open>{ "error": "Internal server error" }\<close>, which does not depend on the error \<open>e\<close>:
  \<^item> the inbound body of an authorized delete-member request does not parse,
  \<^item> on any route, the outbound \<^verbatim>\<open>fetch\<close> throws,
  \<^item> on any route, the body of the backend's answer does not parse.

  The last two are stated twice: for the call found in the handler's trace, and, route by
  route, from the request and the behaviour of \<^verbatim>\<open>fetch\<close> on the call that the route makes.
\<close>

theorem exceptions_become_generic_500:
  "(headers_get request ''Authorization'' = Some authHeader \<and> authHeader \<noteq> []
      \<and> request_json request = Inl e
    \<longrightarrow> fst (POST_delete_member w request) =
          Inr \<lparr>next_status = 500,
               next_body = JObj [(''error'', JStr ''Internal server error'')]\<rparr>)
   \<and> (outbound_calls (snd (handle w route request)) = [(url, init)]
      \<and> fetch w url init = Inl e
    \<longrightarrow> fst (handle w route request) =
          Inr \<lparr>next_status = 500,
               next_body = JObj [(''error'', JStr ''Internal server error'')]\<rparr>)
   \<and> (outbound_calls (snd (handle w route request)) = [(url, init)]
      \<and> fetch w url init = Inr response \<and> response_json response = Inl e
    \<longrightarrow> fst (handle w route request) =
          Inr \<lparr>next_status = 500,
               next_body = JObj [(''error'', JStr ''Internal server error'')]\<rparr>)
   \<and> (headers_get request ''Authorization'' = Some authHeader \<and> authHeader \<noteq> []
      \<and> request_json request = Inr body'
      \<and> (fetch w (SERVER_API_URL w @ ''/api/v1/members/delete-member'')
            \<lparr>http_method = ''POST'',
             headers = [(''Content-Type'', ''application/json''),
                        (''Accept'', ''application/json''),
                        (''Authorization'', authHeader)],
             body = Some body'\<rparr> = Inl e
          \<or> (\<exists>r. fetch w (SERVER_API_URL w @ ''/api/v1/members/delete-member'')
                    \<lparr>http_method = ''POST'',
                     headers = [(''Content-Type'', ''application/json''),
                                (''Accept'', ''application/json''),
                                (''Authorization'', authHeader)],
                     body = Some body'\<rparr> = Inr r
                  \<and> response_json r = Inl e))
    \<longrightarrow> fst (POST_delete_member w request) =
          Inr \<lparr>next_status = 500,
               next_body = JObj [(''error'', JStr ''Internal server error'')]\<rparr>)
   \<and> (headers_get request ''Authorization'' = Some authHeader \<and> authHeader \<noteq> []
      \<and> (fetch w (SERVER_API_URL w @ ''/api/v1/users/me'')
            \<lparr>http_method = ''GET'',
             headers = [(''Accept'', ''application/json''), (''Authorization'', authHeader)],
             body = None\<rparr> = Inl e
          \<or> (\<exists>r. fetch w (SERVER_API_URL w @ ''/api/v1/users/me'')
                    \<lparr>http_method = ''GET'',
                     headers = [(''Accept'', ''application/json''),
                                (''Authorization'', authHeader)],
                     body = None\<rparr> = Inr r
                  \<and> response_json r = Inl e))
    \<longrightarrow> fst (GET_users_me w request) =
          Inr \<lparr>next_status = 500,
               next_body = JObj [(''error'', JStr ''Internal server error'')]\<rparr>)
   \<and> (fetch w (SERVER_API_URL w @ ''/api/v1/users/'' @ encodeURIComponent email)
            \<lparr>http_method = ''GET'', headers = [(''Accept'', ''application/json'')],
             body = None\<rparr> = Inl e
          \<or> (\<exists>r. fetch w (SERVER_API_URL w @ ''/api/v1/users/'' @ encodeURIComponent email)
                    \<lparr>http_method = ''GET'', headers = [(''Accept'', ''application/json'')],
                     body = None\<rparr> = Inr r
                  \<and> response_json r = Inl e)
    \<longrightarrow> fst (GET_users_email w request email) =
          Inr \<lparr>next_status = 500,
               next_body = JObj [(''error'', JStr ''Internal server error'')]\<rparr>)"
proof (intro conjI impI)
  assume "headers_get request ''Authorization'' = Some authHeader \<and> authHeader \<noteq> []
            \<and> request_json request = Inl e"
  then show "fst (POST_delete_member w request) =
               Inr \<lparr>next_status = 500,
                    next_body = JObj [(''error'', JStr ''Internal server error'')]\<rparr>"
    by (simp add: handler_defs)
next
  assume "outbound_calls (snd (handle w route request)) = [(url, init)] \<and> fetch w url init = Inl e"
  then show "fst (handle w route request) =
               Inr \<lparr>next_status = 500,
                    next_body = JObj [(''error'', JStr ''Internal server error'')]\<rparr>"
    by (cases route) (auto simp: handler_defs split: option.splits sum.splits if_splits)
next
  assume "outbound_calls (snd (handle w route request)) = [(url, init)]
            \<and> fetch w url init = Inr response \<and> response_json response = Inl e"
  then show "fst (handle w route request) =
               Inr \<lparr>next_status = 500,
                    next_body = JObj [(''error'', JStr ''Internal server error'')]\<rparr>"
    by (cases route) (auto simp: handler_defs split: option.splits sum.splits if_splits)
next
  assume "headers_get request ''Authorization'' = Some authHeader \<and> authHeader \<noteq> []
      \<and> request_json request = Inr body'
      \<and> (fetch w (SERVER_API_URL w @ ''/api/v1/members/delete-member'')
            \<lparr>http_method = ''POST'',
             headers = [(''Content-Type'', ''application/json''),
                        (''Accept'', ''application/json''),
                        (''Authorization'', authHeader)],
             body = Some body'\<rparr> = Inl e
          \<or> (\<exists>r. fetch w (SERVER_API_URL w @ ''/api/v1/members/delete-member'')
                    \<lparr>http_method = ''POST'',
                     headers = [(''Content-Type'', ''application/json''),
                                (''Accept'', ''application/json''),
                                (''Authorization'', authHeader)],
                     body = Some body'\<rparr> = Inr r
                  \<and> response_json r = Inl e))"
  then show "fst (POST_delete_member w request) =
               Inr \<lparr>next_status = 500,
                    next_body = JObj [(''error'', JStr ''Internal server error'')]\<rparr>"
    by (auto simp: handler_defs API_BASE_URL_def)
next
  assume "headers_get request ''Authorization'' = Some authHeader \<and> authHeader \<noteq> []
      \<and> (fetch w (SERVER_API_URL w @ ''/api/v1/users/me'')
            \<lparr>http_method = ''GET'',
             headers = [(''Accept'', ''application/json''), (''Authorization'', authHeader)],
             body = None\<rparr> = Inl e
          \<or> (\<exists>r. fetch w (SERVER_API_URL w @ ''/api/v1/users/me'')
                    \<lparr>http_method = ''GET'',
                     headers = [(''Accept'', ''application/json''),
                                (''Authorization'', authHeader)],
                     body = None\<rparr> = Inr r
                  \<and> response_json r = Inl e))"
  then show "fst (GET_users_me w request) =
               Inr \<lparr>next_status = 500,
                    next_body = JObj [(''error'', JStr ''Internal server error'')]\<rparr>"
    by (auto simp: handler_defs API_BASE_URL_def)
next
  assume "fetch w (SERVER_API_URL w @ ''/api/v1/users/'' @ encodeURIComponent email)
            \<lparr>http_method = ''GET'', headers = [(''Accept'', ''application/json'')],
             body = None\<rparr> = Inl e
          \<or> (\<exists>r. fetch w (SERVER_API_URL w @ ''/api/v1/users/'' @ encodeURIComponent email)
                    \<lparr>http_method = ''GET'', headers = [(''Accept'', ''application/json'')],
                     body = None\<rparr> = Inr r
                  \<and> response_json r = Inl e)"
  then show "fst (GET_users_email w request email) =
               Inr \<lparr>next_status = 500,
                    next_body = JObj [(''error'', JStr ''Internal server error'')]\<rparr>"
    by (auto simp: handler_defs API_BASE_URL_def)
qed

theorem exceptions_become_generic_500_witness:
  "headers_get malformed_request ''Authorization'' = Some ''Bearer abc''
   \<and> request_json malformed_request = Inl (SyntaxError ''Unexpected token'')
   \<and> fst (POST_delete_member (backend fetch_created) malformed_request) =
       Inr \<lparr>next_status = 500, next_body = JObj [(''error'', JStr ''Internal server error'')]\<rparr>
   \<and> outbound_calls (snd (handle (backend fetch_refused) Users_me member_request)) =
       [(''http://backend:8000/api/v1/users/me'', users_me_init)]
   \<and> fetch (backend fetch_refused) ''http://backend:8000/api/v1/users/me'' users_me_init =
       Inl (TypeError ''fetch failed'')
   \<and> fst (handle (backend fetch_refused) Users_me member_request) =
       Inr \<lparr>next_status = 500, next_body = JObj [(''error'', JStr ''Internal server error'')]\<rparr>
   \<and> outbound_calls
       (snd (handle (backend fetch_html_502) (Users_email ''unknown@example.com'') anonymous_request)) =
       [(''http://backend:8000/api/v1/users/unknown%40example.com'', users_email_init)]
   \<and> fetch (backend fetch_html_502)
       ''http://backend:8000/api/v1/users/unknown%40example.com'' users_email_init =
       Inr \<lparr>status = 502, response_json = Inl (SyntaxError ''Unexpected token <'')\<rparr>
   \<and> fst (handle (backend fetch_html_502) (Users_email ''unknown@example.com'') anonymous_request) =
       Inr \<lparr>next_status = 500, next_body = JObj [(''error'', JStr ''Internal server error'')]\<rparr>
   \<and> request_json member_request = Inr (JObj [(''memberId'', JStr ''123'')])
   \<and> fetch (backend fetch_refused)
       ''http://backend:8000/api/v1/members/delete-member'' delete_member_init =
       Inl (TypeError ''fetch failed'')
   \<and> fst (POST_delete_member (backend fetch_refused) member_request) =
       Inr \<lparr>next_status = 500, next_body = JObj [(''error'', JStr ''Internal server error'')]\<rparr>
   \<and> fst (GET_users_me (backend fetch_refused) member_request) =
       Inr \<lparr>next_status = 500, next_body = JObj [(''error'', JStr ''Internal server error'')]\<rparr>
   \<and> fetch (backend fetch_refused)
       ''http://backend:8000/api/v1/users/unknown%40example.com'' users_email_init =
       Inl (TypeError ''fetch failed'')
   \<and> fst (GET_users_email (backend fetch_refused) anonymous_request ''unknown@example.com'') =
       Inr \<lparr>next_status = 500, next_body = JObj [(''error'', JStr ''Internal server error'')]\<rparr>"
  using
    exceptions_become_generic_500
      [where request = malformed_request and authHeader = "''Bearer abc''"
         and e = "SyntaxError ''Unexpected token''" and w = "backend fetch_created"]
    exceptions_become_generic_500
      [where request = member_request and w = "backend fetch_refused" and route = Users_me
         and url = "''http://backend:8000/api/v1/users/me''" and init = users_me_init
         and authHeader = "''Bearer abc''" and body' = "JObj [(''memberId'', JStr ''123'')]"
         and email = "''unknown@example.com''"
         and e = "TypeError ''fetch failed''"]
    exceptions_become_generic_500
      [where request = anonymous_request and w = "backend fetch_refused"
         and email = "''unknown@example.com''"
         and e = "TypeError ''fetch failed''"]
    exceptions_become_generic_500
      [where request = anonymous_request and w = "backend fetch_html_502"
         and route = "Users_email ''unknown@example.com''"
         and url = "''http://backend:8000/api/v1/users/unknown%40example.com''"
         and init = users_email_init
         and response = "\<lparr>status = 502,
                            response_json = Inl (SyntaxError ''Unexpected token <'')\<rparr>"
         and e = "SyntaxError ''Unexpected token <''"]
  by (simp add: handler_defs example_defs encode_example)

text \<open>
  C5. Success, stated from the request and the backend's behaviour. On each route, when
  the request gets as far as the \<^verbatim>\<open>fetch\<close>, the backend answers the call the route makes
  with a status in 200..299, and the body of the answer parses as JSON, the reply to the
  caller has status 200, whichever 2xx status the backend used, and the parsed body.
\<close>

theorem success_is_200_with_parsed_body:
  assumes "ok response" and "response_json response = Inr data"
  shows "(headers_get request ''Authorization'' = Some authHeader \<and> authHeader \<noteq> []
            \<and> request_json request = Inr body'
            \<and> fetch w (SERVER_API_URL w @ ''/api/v1/members/delete-member'')
                 \<lparr>http_method = ''POST'',
                  headers = [(''Content-Type'', ''application/json''),
                             (''Accept'', ''application/json''),
                             (''Authorization'', authHeader)],
                  body = Some body'\<rparr> = Inr response
          \<longrightarrow> fst (POST_delete_member w request) = Inr \<lparr>next_status = 200, next_body = data\<rparr>)
       \<and> (headers_get request ''Authorization'' = Some authHeader \<and> authHeader \<noteq> []
            \<and> fetch w (SERVER_API_URL w @ ''/api/v1/users/me'')
                 \<lparr>http_method = ''GET'',
                  headers = [(''Accept'', ''application/json''),
                             (''Authorization'', authHeader)],
                  body = None\<rparr> = Inr response
          \<longrightarrow> fst (GET_users_me w request) = Inr \<lparr>next_status = 200, next_body = data\<rparr>)
       \<and> (fetch w (SERVER_API_URL w @ ''/api/v1/users/'' @ encodeURIComponent email)
                 \<lparr>http_method = ''GET'',
                  headers = [(''Accept'', ''application/json'')],
                  body = None\<rparr> = Inr response
          \<longrightarrow> fst (GET_users_email w request email) = Inr \<lparr>next_status = 200, next_body = data\<rparr>)"
proof -
  have reply: "NextResponse_json data None = Inr \<lparr>next_status = 200, next_body = data\<rparr>"
    by (simp add: NextResponse_json_def nullBodyStatus_def)
  show ?thesis
    using assms reply
    by (simp add: POST_delete_member_def POST_delete_member_try_def
          GET_users_me_def GET_users_me_try_def
          GET_users_email_def GET_users_email_try_def API_BASE_URL_def Let_def)
qed

theorem success_is_200_with_parsed_body_witness:
  "ok \<lparr>status = 201, response_json = Inr (JObj [(''success'', JBool True)])\<rparr>
   \<and> headers_get member_request ''Authorization'' = Some ''Bearer abc''
   \<and> request_json member_request = Inr (JObj [(''memberId'', JStr ''123'')])
   \<and> fetch (backend fetch_created)
         ''http://backend:8000/api/v1/members/delete-member'' delete_member_init
     = Inr \<lparr>status = 201, response_json = Inr (JObj [(''success'', JBool True)])\<rparr>
   \<and> fst (POST_delete_member (backend fetch_created) member_request)
     = Inr \<lparr>next_status = 200, next_body = JObj [(''success'', JBool True)]\<rparr>
   \<and> fetch (backend fetch_created) ''http://backend:8000/api/v1/users/me'' users_me_init
     = Inr \<lparr>status = 201, response_json = Inr (JObj [(''success'', JBool True)])\<rparr>
   \<and> fst (GET_users_me (backend fetch_created) member_request)
     = Inr \<lparr>next_status = 200, next_body = JObj [(''success'', JBool True)]\<rparr>
   \<and> fetch (backend fetch_created)
         ''http://backend:8000/api/v1/users/unknown%40example.com'' users_email_init
     = Inr \<lparr>status = 201, response_json = Inr (JObj [(''success'', JBool True)])\<rparr>
   \<and> fst (GET_users_email (backend fetch_created) anonymous_request ''unknown@example.com'')
     = Inr \<lparr>next_status = 200, next_body = JObj [(''success'', JBool True)]\<rparr>"
  using
    success_is_200_with_parsed_body
      [where response = "\<lparr>status = 201,
                            response_json = Inr (JObj [(''success'', JBool True)])\<rparr>"
         and data = "JObj [(''success'', JBool True)]"
         and w = "backend fetch_created" and request = member_request
         and authHeader = "''Bearer abc''" and body' = "JObj [(''memberId'', JStr ''123'')]"
         and email = "''unknown@example.com''"]
    success_is_200_with_parsed_body
      [where response = "\<lparr>status = 201,
                            response_json = Inr (JObj [(''success'', JBool True)])\<rparr>"
         and data = "JObj [(''success'', JBool True)]"
         and w = "backend fetch_created" and request = anonymous_request
         and email = "''unknown@example.com''"]
  by (simp add: example_defs encode_example)

text \<open>
  C6. A backend body that is not JSON, stated from the request and the backend's
  behaviour. On each route, when the request gets as far as the \<^verbatim>\<open>fetch\<close> and the body of
  the backend's answer to the call the route makes does not parse, the reply is the
  generic 500, whatever the backend's status: the body is parsed before the status is
  looked at, so a failure status with a body that is not JSON is not passed through.
\<close>

theorem non_json_backend_body_is_500:
  assumes "response_json response = Inl e"
  shows "(headers_get request ''Authorization'' = Some authHeader \<and> authHeader \<noteq> []
            \<and> request_json request = Inr body'
            \<and> fetch w (SERVER_API_URL w @ ''/api/v1/members/delete-member'')
                 \<lparr>http_method = ''POST'',
                  headers = [(''Content-Type'', ''application/json''),
                             (''Accept'', ''application/json''),
                             (''Authorization'', authHeader)],
                  body = Some body'\<rparr> = Inr response
          \<longrightarrow> fst (POST_delete_member w request) =
                Inr \<lparr>next_status = 500,
                     next_body = JObj [(''error'', JStr ''Internal server error'')]\<rparr>)
       \<and> (headers_get request ''Authorization'' = Some authHeader \<and> authHeader \<noteq> []
            \<and> fetch w (SERVER_API_URL w @ ''/api/v1/users/me'')
                 \<lparr>http_method = ''GET'',
                  headers = [(''Accept'', ''application/json''),
                             (''Authorization'', authHeader)],
                  body = None\<rparr> = Inr response
          \<longrightarrow> fst (GET_users_me w request) =
                Inr \<lparr>next_status = 500,
                     next_body = JObj [(''error'', JStr ''Internal server error'')]\<rparr>)
       \<and> (fetch w (SERVER_API_URL w @ ''/api/v1/users/'' @ encodeURIComponent email)
                 \<lparr>http_method = ''GET'',
                  headers = [(''Accept'', ''application/json'')],
                  body = None\<rparr> = Inr response
          \<longrightarrow> fst (GET_users_email w request email) =
                Inr \<lparr>next_status = 500,
                     next_body = JObj [(''error'', JStr ''Internal server error'')]\<rparr>)"
proof -
  have generic:
    "NextResponse_json (JObj [(''error'', JStr ''Internal server error'')]) (Some 500) =
       Inr \<lparr>next_status = 500, next_body = JObj [(''error'', JStr ''Internal server error'')]\<rparr>"
    by (simp add: NextResponse_json_def nullBodyStatus_def)
  show ?thesis
    using assms generic
    by (simp add: POST_delete_member_def POST_delete_member_try_def
          GET_users_me_def GET_users_me_try_def
          GET_users_email_def GET_users_email_try_def API_BASE_URL_def Let_def)
qed

theorem non_json_backend_body_is_500_witness:
  "headers_get member_request ''Authorization'' = Some ''Bearer abc''
   \<and> request_json member_request = Inr (JObj [(''memberId'', JStr ''123'')])
   \<and> fetch (backend fetch_html_502)
         ''http://backend:8000/api/v1/members/delete-member'' delete_member_init
     = Inr \<lparr>status = 502, response_json = Inl (SyntaxError ''Unexpected token <'')\<rparr>
   \<and> fst (POST_delete_member (backend fetch_html_502) member_request)
     = Inr \<lparr>next_status = 500, next_body = JObj [(''error'', JStr ''Internal server error'')]\<rparr>
   \<and> fetch (backend fetch_html_502) ''http://backend:8000/api/v1/users/me'' users_me_init
     = Inr \<lparr>status = 502, response_json = Inl (SyntaxError ''Unexpected token <'')\<rparr>
   \<and> fst (GET_users_me (backend fetch_html_502) member_request)
     = Inr \<lparr>next_status = 500, next_body = JObj [(''error'', JStr ''Internal server error'')]\<rparr>
   \<and> fetch (backend fetch_html_502)
         ''http://backend:8000/api/v1/users/unknown%40example.com'' users_email_init
     = Inr \<lparr>status = 502, response_json = Inl (SyntaxError ''Unexpected token <'')\<rparr>
   \<and> fst (GET_users_email (backend fetch_html_502) anonymous_request ''unknown@example.com'')
     = Inr \<lparr>next_status = 500, next_body = JObj [(''error'', JStr ''Internal server error'')]\<rparr>"
  using
    non_json_backend_body_is_500
      [where response = "\<lparr>status = 502,
                            response_json = Inl (SyntaxError ''Unexpected token <'')\<rparr>"
         and e = "SyntaxError ''Unexpected token <''"
         and w = "backend fetch_html_502" and request = member_request
         and authHeader = "''Bearer abc''" and body' = "JObj [(''memberId'', JStr ''123'')]"
         and email = "''unknown@example.com''"]
    non_json_backend_body_is_500
      [where response = "\<lparr>status = 502,
                            response_json = Inl (SyntaxError ''Unexpected token <'')\<rparr>"
         and e = "SyntaxError ''Unexpected token <''"
         and w = "backend fetch_html_502" and request = anonymous_request
         and email = "''unknown@example.com''"]
  by (simp add: example_defs encode_example)

text \<open>
  C7. The \<^verbatim>\<open>[email]\<close> route requires no authentication. Its result does not depend on the
  inbound request at all, hence not on an \<^verbatim>\<open>Authorization\<close> header; it always makes its
  one call to the backend; and it has no 401 of its own: when it replies 401, that is the
  backend's 401, relayed with the backend's body.
\<close>

theorem users_email_requires_no_authorization:
  "GET_users_email w request email = GET_users_email w request' email
   \<and> outbound_calls (snd (GET_users_email w request email)) =
       [(API_BASE_URL w @ ''/api/v1/users/'' @ encodeURIComponent email,
         \<lparr>http_method = ''GET'', headers = [(''Accept'', ''application/json'')], body = None\<rparr>)]
   \<and> (fst (GET_users_email w request email) = Inr res \<and> next_status res = 401 \<longrightarrow>
        (\<exists>response.
           fetch w (API_BASE_URL w @ ''/api/v1/users/'' @ encodeURIComponent email)
             \<lparr>http_method = ''GET'', headers = [(''Accept'', ''application/json'')], body = None\<rparr>
             = Inr response
           \<and> status response = 401
           \<and> response_json response = Inr (next_body res)))"
proof (intro conjI impI)
  show "GET_users_email w request email = GET_users_email w request' email"
    by (simp add: GET_users_email_def GET_users_email_try_def)
  show "outbound_calls (snd (GET_users_email w request email)) =
          [(API_BASE_URL w @ ''/api/v1/users/'' @ encodeURIComponent email,
            \<lparr>http_method = ''GET'', headers = [(''Accept'', ''application/json'')], body = None\<rparr>)]"
    by (auto simp: handler_defs split: sum.splits)
next
  assume "fst (GET_users_email w request email) = Inr res \<and> next_status res = 401"
  then show "\<exists>response.
           fetch w (API_BASE_URL w @ ''/api/v1/users/'' @ encodeURIComponent email)
             \<lparr>http_method = ''GET'', headers = [(''Accept'', ''application/json'')], body = None\<rparr>
             = Inr response
           \<and> status response = 401
           \<and> response_json response = Inr (next_body res)"
    by (auto simp: handler_defs ok_def split: sum.splits if_splits)
qed

theorem users_email_requires_no_authorization_witness:
  "GET_users_email (backend fetch_unauthorized) anonymous_request ''unknown@example.com'' =
     GET_users_email (backend fetch_unauthorized) member_request ''unknown@example.com''
   \<and> outbound_calls
       (snd (GET_users_email (backend fetch_unauthorized) anonymous_request ''unknown@example.com'')) =
       [(''http://backend:8000/api/v1/users/unknown%40example.com'', users_email_init)]
   \<and> fst (GET_users_email (backend fetch_unauthorized) anonymous_request ''unknown@example.com'') =
       Inr \<lparr>next_status = 401,
            next_body = JObj [(''error'', JStr ''Authorization header is required'')]\<rparr>
   \<and> fetch (backend fetch_unauthorized)
       ''http://backend:8000/api/v1/users/unknown%40example.com'' users_email_init =
       Inr \<lparr>status = 401,
            response_json = Inr (JObj [(''error'', JStr ''Authorization header is required'')])\<rparr>
   \<and> fst (GET_users_email (backend fetch_not_found) anonymous_request ''unknown@example.com'') =
       Inr \<lparr>next_status = 404, next_body = JObj [(''error'', JStr ''not found'')]\<rparr>"
  using users_email_requires_no_authorization
    [where w = "backend fetch_unauthorized" and request = anonymous_request
       and request' = member_request and email = "''unknown@example.com''"
       and res = "\<lparr>next_status = 401,
                     next_body = JObj [(''error'', JStr ''Authorization header is required'')]\<rparr>"]
  by (simp add: handler_defs example_defs encode_example)

text \<open>
  C8, as the claim states it, fails: a delete-member request without an
  \<^verbatim>\<open>Authorization\<close> header is answered without any outbound call, so the number of calls
  of that invocation is 0, not 1.
\<close>

theorem rejected_request_makes_no_call_counterexample:
  "outbound_calls (snd (handle (backend fetch_created) Members_delete_member anonymous_request)) = []
   \<and> length (outbound_calls
        (snd (handle (backend fetch_created) Members_delete_member anonymous_request))) \<noteq> 1"
  by (simp add: handler_defs example_defs)

text \<open>
  C8, amended. An invocation makes at most one outbound call, and never a second one,
  whatever the outcome of the first (there is no retry). It makes exactly one call when it
  gets as far as the \<^verbatim>\<open>fetch\<close>: always on the \<^verbatim>\<open>[email]\<close> route; on \<^verbatim>\<open>users/me\<close> when the
  \<^verbatim>\<open>Authorization\<close> header is present and not empty; on delete-member when moreover the
  inbound body parses as JSON. Otherwise it makes none.
\<close>

theorem at_most_one_outbound_call:
  "length (outbound_calls (snd (handle w route request))) \<le> 1
   \<and> (length (outbound_calls (snd (handle w route request))) = 1 \<longleftrightarrow>
        (case route of
           Members_delete_member \<Rightarrow>
             headers_get request ''Authorization'' \<notin> {None, Some []}
             \<and> \<not> isl (request_json request)
         | Users_me \<Rightarrow> headers_get request ''Authorization'' \<notin> {None, Some []}
         | Users_email email \<Rightarrow> True))"
proof (cases route)
  case Members_delete_member
  then show ?thesis
    by (auto simp: handler_defs split: option.splits sum.splits if_splits)
next
  case Users_me
  then show ?thesis
    by (auto simp: handler_defs split: option.splits sum.splits if_splits)
next
  case (Users_email email)
  then show ?thesis
    by (auto simp: handler_defs split: sum.splits if_splits)
qed

theorem at_most_one_outbound_call_witness:
  "length (outbound_calls (snd (handle (backend fetch_refused) Members_delete_member member_request))) = 1
   \<and> headers_get member_request ''Authorization'' \<notin> {None, Some []}
   \<and> \<not> isl (request_json member_request)
   \<and> length (outbound_calls (snd (handle (backend fetch_refused) Users_me anonymous_request))) = 0
   \<and> headers_get anonymous_request ''Authorization'' \<in> {None, Some []}
   \<and> length (outbound_calls
        (snd (handle (backend fetch_refused) (Users_email ''unknown@example.com'') anonymous_request)))
       = 1"
  using
    at_most_one_outbound_call
      [where w = "backend fetch_refused" and route = Members_delete_member
         and request = member_request]
    at_most_one_outbound_call
      [where w = "backend fetch_refused" and route = Users_me and request = anonymous_request]
    at_most_one_outbound_call
      [where w = "backend fetch_refused" and route = "Users_email ''unknown@example.com''"
         and request = anonymous_request]
  by (simp add: handler_defs example_defs)

text \<open>
  C9. The target of every outbound call is the configured base URL followed by the
  route's fixed path; on the \<^verbatim>\<open>[email]\<close> route the path parameter is appended after
  \<^verbatim>\<open>encodeURIComponent\<close>.
\<close>

theorem outbound_url_is_base_url_plus_path:
  "(\<forall>(url, init) \<in> set (outbound_calls (snd (POST_delete_member w request))).
      url = SERVER_API_URL w @ ''/api/v1/members/delete-member'')
   \<and> (\<forall>(url, init) \<in> set (outbound_calls (snd (GET_users_me w request))).
      url = SERVER_API_URL w @ ''/api/v1/users/me'')
   \<and> map fst (outbound_calls (snd (GET_users_email w request email))) =
       [SERVER_API_URL w @ ''/api/v1/users/'' @ encodeURIComponent email]"
proof (intro conjI)
  show "\<forall>(url, init) \<in> set (outbound_calls (snd (POST_delete_member w request))).
          url = SERVER_API_URL w @ ''/api/v1/members/delete-member''"
    by (auto simp: handler_defs API_BASE_URL_def split: option.splits sum.splits if_splits)
  show "\<forall>(url, init) \<in> set (outbound_calls (snd (GET_users_me w request))).
          url = SERVER_API_URL w @ ''/api/v1/users/me''"
    by (auto simp: handler_defs API_BASE_URL_def split: option.splits sum.splits if_splits)
  show "map fst (outbound_calls (snd (GET_users_email w request email))) =
          [SERVER_API_URL w @ ''/api/v1/users/'' @ encodeURIComponent email]"
    by (auto simp: handler_defs API_BASE_URL_def split: sum.splits)
qed

theorem outbound_url_is_base_url_plus_path_witness:
  "map fst (outbound_calls (snd (POST_delete_member (backend fetch_created) member_request))) =
     [''http://backend:8000/api/v1/members/delete-member'']
   \<and> map fst (outbound_calls (snd (GET_users_me (backend fetch_created) member_request))) =
     [''http://backend:8000/api/v1/users/me'']
   \<and> map fst (outbound_calls
       (snd (GET_users_email (backend fetch_created) member_request ''unknown@example.com''))) =
     [''http://backend:8000/api/v1/users/unknown%40example.com'']
   \<and> encodeURIComponent ''a b/c?d'' = ''a%20b%2Fc%3Fd''"
  using outbound_url_is_base_url_plus_path
    [where w = "backend fetch_created" and request = member_request
       and email = "''unknown@example.com''"]
  by (simp add: handler_defs example_defs encode_example) (simp add: encode_defs)

text \<open>
  C10. On the delete-member route the \<^verbatim>\<open>Authorization\<close> check comes before the inbound
  body is read: without the header the reply is the 401, whatever the body is; with a
  header that passes the check and a body that does not parse, the reply is the generic
  500 and no outbound call is made.
\<close>

theorem delete_member_checks_authorization_first:
  "(headers_get request ''Authorization'' = None \<longrightarrow>
      POST_delete_member w request =
        (Inr \<lparr>next_status = 401,
              next_body = JObj [(''error'', JStr ''Authorization header is required'')]\<rparr>, []))
   \<and> (headers_get request ''Authorization'' = Some authHeader \<and> authHeader \<noteq> []
        \<and> request_json request = Inl e \<longrightarrow>
      fst (POST_delete_member w request) =
        Inr \<lparr>next_status = 500, next_body = JObj [(''error'', JStr ''Internal server error'')]\<rparr>
      \<and> outbound_calls (snd (POST_delete_member w request)) = [])"
  by (simp add: handler_defs)

theorem delete_member_checks_authorization_first_witness:
  "headers_get anonymous_request ''Authorization'' = None
   \<and> request_json anonymous_request = Inl (SyntaxError ''Unexpected end of JSON input'')
   \<and> POST_delete_member (backend fetch_created) anonymous_request =
       (Inr \<lparr>next_status = 401,
             next_body = JObj [(''error'', JStr ''Authorization header is required'')]\<rparr>, [])
   \<and> headers_get malformed_request ''Authorization'' = Some ''Bearer abc''
   \<and> request_json malformed_request = Inl (SyntaxError ''Unexpected token'')
   \<and> fst (POST_delete_member (backend fetch_created) malformed_request) =
       Inr \<lparr>next_status = 500, next_body = JObj [(''error'', JStr ''Internal server error'')]\<rparr>
   \<and> outbound_calls (snd (POST_delete_member (backend fetch_created) malformed_request)) = []"
  using
    delete_member_checks_authorization_first
      [where request = anonymous_request and w = "backend fetch_created"]
    delete_member_checks_authorization_first
      [where request = malformed_request and w = "backend fetch_created"
         and authHeader = "''Bearer abc''" and e = "SyntaxError ''Unexpected token''"]
  by (simp add: example_defs)

end
